theory Spec2Isabelle
  imports Complex_Main "HOL-Library.Word"
begin

section \<open>The triangle renderer of \<^verbatim>\<open>src/main.cpp\<close>\<close>

text \<open>
  The program is one sequential procedure, \<^verbatim>\<open>main\<close>, that talks to two external
  libraries (GLFW for the window and the input, OpenGL through glad for the GPU).
  The embedding records every library call the program makes, in order and with
  the arguments the source passes, in a log. What the libraries answer (whether
  an initialisation succeeds, which object names the driver hands out, the
  compile and link status flags and logs, which keys are down in a frame, which
  window events a poll delivers) is not decided by the program: it is the input
  of the model, collected in the record \<open>env\<close>.
\<close>

subsection \<open>Handles, constants and embedded literals\<close>

text \<open>A \<^verbatim>\<open>GLFWwindow*\<close> is an address; the null pointer is \<open>None\<close> where it can occur.\<close>

type_synonym window = nat

text \<open>\<^verbatim>\<open>unsigned int\<close> object names of OpenGL.\<close>

type_synonym GLuint = "32 word"

text \<open>
  The symbolic constants of the two headers that the program uses. Their
  numeric values are in the headers, not in the program.
\<close>

datatype GLenum =
    GL_ARRAY_BUFFER
  | GL_STATIC_DRAW
  | GL_FLOAT
  | GL_VERTEX_SHADER
  | GL_FRAGMENT_SHADER
  | GL_COMPILE_STATUS
  | GL_LINK_STATUS
  | GL_COLOR_BUFFER_BIT
  | GL_TRIANGLES

datatype glfw_hint =
    GLFW_CONTEXT_VERSION_MAJOR
  | GLFW_CONTEXT_VERSION_MINOR
  | GLFW_OPENGL_PROFILE

datatype glfw_hint_value =
    HintInt int
  | GLFW_OPENGL_CORE_PROFILE

datatype glfw_key = GLFW_KEY_ESCAPE

definition newline :: string where
  "newline = [CHR 0x0A]"

text \<open>Lines 9-15: the raw string literal starts and ends with a line break.\<close>

definition vertexShaderSource :: string where
  "vertexShaderSource =
     newline @
     ''#version 330 core'' @ newline @
     ''layout (location = 0) in vec3 aPos;'' @ newline @
     ''void main() {'' @ newline @
     ''    gl_Position = vec4(aPos, 1.0);'' @ newline @
     ''}'' @ newline"

text \<open>Lines 19-25.\<close>

definition fragmentShaderSource :: string where
  "fragmentShaderSource =
     newline @
     ''#version 330 core'' @ newline @
     ''out vec4 FragColor;'' @ newline @
     ''void main() {'' @ newline @
     ''    FragColor = vec4(1.0, 0.5, 0.2, 1.0);'' @ newline @
     ''}'' @ newline"

text \<open>
  Lines 57-61. The three literals \<^verbatim>\<open>-0.5f\<close>, \<^verbatim>\<open>0.5f\<close> and \<^verbatim>\<open>0.0f\<close> are
  exactly representable in binary floating point, so the array is the list of
  the numbers they denote.
\<close>

definition vertices :: "real list" where
  "vertices =
     [-0.5, -0.5, 0.0,
       0.5, -0.5, 0.0,
       0.0,  0.5, 0.0]"

definition sizeof_float :: nat where
  "sizeof_float = 4"

definition sizeof_vertices :: nat where
  "sizeof_vertices = length vertices * sizeof_float"

subsection \<open>The log of library calls\<close>

datatype call =
    GlfwInit
  | GlfwWindowHint glfw_hint glfw_hint_value
  | GlfwCreateWindow int int string
  | GlfwTerminate
  | GlfwMakeContextCurrent window
  | GlfwSetFramebufferSizeCallback window
  | GladLoadGLLoader
  | Cerr string
  | GlGenVertexArrays nat
  | GlGenBuffers nat
  | GlBindVertexArray GLuint
  | GlBindBuffer GLenum GLuint
  | GlBufferData GLenum nat "real list" GLenum
  | GlVertexAttribPointer nat nat GLenum bool nat nat
  | GlEnableVertexAttribArray nat
  | GlCreateShader GLenum
  | GlShaderSource GLuint nat string
  | GlCompileShader GLuint
  | GlGetShaderiv GLuint GLenum
  | GlGetShaderInfoLog GLuint nat
  | GlCreateProgram
  | GlAttachShader GLuint GLuint
  | GlLinkProgram GLuint
  | GlGetProgramiv GLuint GLenum
  | GlGetProgramInfoLog GLuint nat
  | GlDeleteShader GLuint
  | GlfwWindowShouldClose window
  | GlfwGetKey window glfw_key
  | GlfwSetWindowShouldClose window bool
  | GlClear GLenum
  | GlUseProgram GLuint
  | GlDrawArrays GLenum nat nat
  | GlfwSwapBuffers window
  | GlfwPollEvents
  | GlViewport int int int int
  | GlDeleteVertexArrays nat GLuint
  | GlDeleteBuffers nat GLuint
  | GlDeleteProgram GLuint

text \<open>
  The state the program acts on: the calls made so far, oldest first (a write to
  standard error is one of them), and the close flag of the window.
\<close>

record world =
  calls :: "call list"
  shouldClose :: bool

definition init_world :: world where
  "init_world = \<lparr>calls = [], shouldClose = False\<rparr>"

definition emit :: "call \<Rightarrow> world \<Rightarrow> world" where
  "emit c s = s\<lparr>calls := calls s @ [c]\<rparr>"

subsection \<open>What the libraries and the user answer\<close>

text \<open>
  One entry per pass through the loop body: whether \<^verbatim>\<open>glfwGetKey\<close> reports
  the Escape key as pressed, whether the event poll of that pass delivers a close
  request of the user, and the framebuffer sizes of the resize events it
  delivers.
\<close>

record frame_input =
  escape_pressed :: bool
  close_requested :: bool
  resizes :: "(int \<times> int) list"

record env =
  glfwInit_ok :: bool
  created_window :: "window option"
  gladLoadGLLoader_ok :: bool
  gen_VAO :: GLuint
  gen_VBO :: GLuint
  vertexShader_name :: GLuint
  vertex_compile_status :: bool
  vertex_log :: string
  fragmentShader_name :: GLuint
  fragment_compile_status :: bool
  fragment_log :: string
  shaderProgram_name :: GLuint
  link_status :: bool
  link_log :: string
  frames :: "frame_input list"

subsection \<open>Library calls that change more than the log\<close>

text \<open>\<^verbatim>\<open>glfwSetWindowShouldClose(window, value)\<close> stores the flag.\<close>

definition glfwSetWindowShouldClose :: "window \<Rightarrow> bool \<Rightarrow> world \<Rightarrow> world" where
  "glfwSetWindowShouldClose window v s =
     (emit (GlfwSetWindowShouldClose window v) s)\<lparr>shouldClose := v\<rparr>"

text \<open>Lines 27-30: the resize callback of the program.\<close>

definition framebuffer_size_callback :: "window \<Rightarrow> int \<Rightarrow> int \<Rightarrow> world \<Rightarrow> world" where
  "framebuffer_size_callback window width height s =
     emit (GlViewport 0 0 width height) s"

text \<open>
  \<^verbatim>\<open>glfwPollEvents()\<close> handles the pending window events: a close request
  raises the close flag (the program installs no close callback and never lowers
  the flag), and every framebuffer resize runs the registered callback.
\<close>

definition glfwPollEvents :: "window \<Rightarrow> frame_input \<Rightarrow> world \<Rightarrow> world" where
  "glfwPollEvents window f s =
     (let s1 = emit GlfwPollEvents s;
          s2 = s1\<lparr>shouldClose := shouldClose s1 \<or> close_requested f\<rparr>
      in fold (\<lambda>(width, height). framebuffer_size_callback window width height)
           (resizes f) s2)"

text \<open>
  \<^verbatim>\<open>glGetShaderInfoLog\<close> and \<^verbatim>\<open>glGetProgramInfoLog\<close> copy the log of the
  driver into a buffer of \<open>maxLength\<close> characters, the terminating null
  character included.
\<close>

definition glGetInfoLog :: "nat \<Rightarrow> string \<Rightarrow> string" where
  "glGetInfoLog maxLength driver_log = take (maxLength - 1) driver_log"

subsection \<open>The frame loop, lines 119-135\<close>

definition frame_body :: "window \<Rightarrow> GLuint \<Rightarrow> GLuint \<Rightarrow> frame_input \<Rightarrow> world \<Rightarrow> world" where
  "frame_body window shaderProgram VAO f s =
     (let s1 = emit (GlfwGetKey window GLFW_KEY_ESCAPE) s;
          s2 = (if escape_pressed f then glfwSetWindowShouldClose window True s1 else s1);
          s3 = emit (GlClear GL_COLOR_BUFFER_BIT) s2;
          s4 = emit (GlUseProgram shaderProgram) s3;
          s5 = emit (GlBindVertexArray VAO) s4;
          s6 = emit (GlDrawArrays GL_TRIANGLES 0 3) s5;
          s7 = emit (GlfwSwapBuffers window) s6
      in glfwPollEvents window f s7)"

text \<open>
  The loop consumes one \<open>frame_input\<close> per pass. It returns the state and
  whether the loop was left: \<open>False\<close> means that the inputs ran out with the
  close flag still unset, so the program is still in the loop.
\<close>

fun render_loop ::
  "window \<Rightarrow> GLuint \<Rightarrow> GLuint \<Rightarrow> frame_input list \<Rightarrow> world \<Rightarrow> world \<times> bool" where
  "render_loop window shaderProgram VAO [] s =
     (let s1 = emit (GlfwWindowShouldClose window) s
      in (s1, shouldClose s1))"
| "render_loop window shaderProgram VAO (f # fs) s =
     (let s1 = emit (GlfwWindowShouldClose window) s
      in if shouldClose s1 then (s1, True)
         else render_loop window shaderProgram VAO fs
                (frame_body window shaderProgram VAO f s1))"

subsection \<open>The phases of \<^verbatim>\<open>main\<close>\<close>

text \<open>
  Lines 34-54. \<open>Inl status\<close> is an early \<^verbatim>\<open>return status\<close>, \<open>Inr window\<close> the
  window the later phases use.
\<close>

definition bootstrap :: "env \<Rightarrow> world \<Rightarrow> (int + window) \<times> world" where
  "bootstrap e s =
     (let s1 = emit GlfwInit s in
      if \<not> glfwInit_ok e then (Inl (- 1), s1)
      else
        let s2 = emit (GlfwWindowHint GLFW_CONTEXT_VERSION_MAJOR (HintInt 3)) s1;
            s3 = emit (GlfwWindowHint GLFW_CONTEXT_VERSION_MINOR (HintInt 3)) s2;
            s4 = emit (GlfwWindowHint GLFW_OPENGL_PROFILE GLFW_OPENGL_CORE_PROFILE) s3;
            s5 = emit (GlfwCreateWindow 800 600 ''Triangulo OpenGL'') s4
        in case created_window e of
             None \<Rightarrow> (Inl (- 1), emit GlfwTerminate s5)
           | Some window \<Rightarrow>
               let s6 = emit (GlfwMakeContextCurrent window) s5;
                   s7 = emit (GlfwSetFramebufferSizeCallback window) s6;
                   s8 = emit GladLoadGLLoader s7
               in if \<not> gladLoadGLLoader_ok e
                  then (Inl (- 1), emit (Cerr (''Failed to initialize GLAD'' @ newline)) s8)
                  else (Inr window, s8))"

text \<open>Lines 57-78.\<close>

definition upload_geometry :: "env \<Rightarrow> world \<Rightarrow> world" where
  "upload_geometry e s =
     (let VAO = gen_VAO e;
          VBO = gen_VBO e;
          s1 = emit (GlGenVertexArrays 1) s;
          s2 = emit (GlGenBuffers 1) s1;
          s3 = emit (GlBindVertexArray VAO) s2;
          s4 = emit (GlBindBuffer GL_ARRAY_BUFFER VBO) s3;
          s5 = emit (GlBufferData GL_ARRAY_BUFFER sizeof_vertices vertices GL_STATIC_DRAW) s4;
          s6 = emit (GlVertexAttribPointer 0 3 GL_FLOAT False (3 * sizeof_float) 0) s5
      in emit (GlEnableVertexAttribArray 0) s6)"

text \<open>
  Lines 82-116. A failed status only adds a line on standard error: the
  header, the fetched log and the line break of \<^verbatim>\<open>std::endl\<close>.
\<close>

definition report :: "string \<Rightarrow> string \<Rightarrow> call" where
  "report header infoLog = Cerr (header @ newline @ infoLog @ newline)"

definition build_program :: "env \<Rightarrow> world \<Rightarrow> world" where
  "build_program e s =
     (let vertexShader = vertexShader_name e;
          s1 = emit (GlCreateShader GL_VERTEX_SHADER) s;
          s2 = emit (GlShaderSource vertexShader 1 vertexShaderSource) s1;
          s3 = emit (GlCompileShader vertexShader) s2;
          s4 = emit (GlGetShaderiv vertexShader GL_COMPILE_STATUS) s3;
          s5 = (if \<not> vertex_compile_status e
                then emit (report ''ERROR::VERTEX_SHADER_COMPILATION_FAILED''
                             (glGetInfoLog 512 (vertex_log e)))
                       (emit (GlGetShaderInfoLog vertexShader 512) s4)
                else s4);
          fragmentShader = fragmentShader_name e;
          s6 = emit (GlCreateShader GL_FRAGMENT_SHADER) s5;
          s7 = emit (GlShaderSource fragmentShader 1 fragmentShaderSource) s6;
          s8 = emit (GlCompileShader fragmentShader) s7;
          s9 = emit (GlGetShaderiv fragmentShader GL_COMPILE_STATUS) s8;
          s10 = (if \<not> fragment_compile_status e
                 then emit (report ''ERROR::FRAGMENT_SHADER_COMPILATION_FAILED''
                              (glGetInfoLog 512 (fragment_log e)))
                        (emit (GlGetShaderInfoLog fragmentShader 512) s9)
                 else s9);
          shaderProgram = shaderProgram_name e;
          s11 = emit GlCreateProgram s10;
          s12 = emit (GlAttachShader shaderProgram vertexShader) s11;
          s13 = emit (GlAttachShader shaderProgram fragmentShader) s12;
          s14 = emit (GlLinkProgram shaderProgram) s13;
          s15 = emit (GlGetProgramiv shaderProgram GL_LINK_STATUS) s14;
          s16 = (if \<not> link_status e
                 then emit (report ''ERROR::SHADER_PROGRAM_LINKING_FAILED''
                              (glGetInfoLog 512 (link_log e)))
                        (emit (GlGetProgramInfoLog shaderProgram 512) s15)
                 else s15);
          s17 = emit (GlDeleteShader vertexShader) s16
      in emit (GlDeleteShader fragmentShader) s17)"

text \<open>Lines 138-142.\<close>

definition shutdown :: "env \<Rightarrow> world \<Rightarrow> world" where
  "shutdown e s =
     (let s1 = emit (GlDeleteVertexArrays 1 (gen_VAO e)) s;
          s2 = emit (GlDeleteBuffers 1 (gen_VBO e)) s1;
          s3 = emit (GlDeleteProgram (shaderProgram_name e)) s2
      in emit GlfwTerminate s3)"

text \<open>
  Lines 32-144. The result is the final state and the exit status; the status
  is \<open>None\<close> when the inputs ran out inside the loop.
\<close>

definition main :: "env \<Rightarrow> world \<times> int option" where
  "main e =
     (case bootstrap e init_world of
        (Inl status, s) \<Rightarrow> (s, Some status)
      | (Inr window, s) \<Rightarrow>
          let s1 = upload_geometry e s;
              s2 = build_program e s1;
              (s3, left) = render_loop window (shaderProgram_name e) (gen_VAO e) (frames e) s2
          in if left then (shutdown e s3, Some 0) else (s3, None))"

section \<open>Notions for stating the properties\<close>

subsection \<open>The frame loop as the specification words it\<close>

text \<open>A frame input raises the close flag: through the Escape key or a close request.\<close>

definition closes :: "frame_input \<Rightarrow> bool" where
  "closes f = (escape_pressed f \<or> close_requested f)"

text \<open>
  The frame inputs for which the loop body runs when the loop is entered with the
  flag unset: all up to and including the first one that raises the flag.
\<close>

fun iterations :: "frame_input list \<Rightarrow> frame_input list" where
  "iterations [] = []"
| "iterations (f # fs) = (if closes f then [f] else f # iterations fs)"

text \<open>The viewport updates that the resize callback makes while the events are dispatched.\<close>

definition viewport_updates :: "frame_input \<Rightarrow> call list" where
  "viewport_updates f = map (\<lambda>(width, height). GlViewport 0 0 width height) (resizes f)"

text \<open>
  The steps of one iteration as section 4.4 of the specification lists them: the
  key poll (with the flag set when Escape is down), the clear, the two binds, the
  draw call, the swap and the event poll with its dispatch.
\<close>

definition frame_steps :: "window \<Rightarrow> GLuint \<Rightarrow> GLuint \<Rightarrow> frame_input \<Rightarrow> call list" where
  "frame_steps window shaderProgram VAO f =
     [GlfwGetKey window GLFW_KEY_ESCAPE] @
     (if escape_pressed f then [GlfwSetWindowShouldClose window True] else []) @
     [GlClear GL_COLOR_BUFFER_BIT,
      GlUseProgram shaderProgram,
      GlBindVertexArray VAO,
      GlDrawArrays GL_TRIANGLES 0 3,
      GlfwSwapBuffers window,
      GlfwPollEvents] @
     viewport_updates f"

text \<open>
  Every iteration is the test of the close flag followed by the steps; one more
  test of the flag ends the list.
\<close>

definition loop_calls :: "window \<Rightarrow> GLuint \<Rightarrow> GLuint \<Rightarrow> frame_input list \<Rightarrow> call list" where
  "loop_calls window shaderProgram VAO fs =
     concat (map (\<lambda>f. GlfwWindowShouldClose window # frame_steps window shaderProgram VAO f)
               (iterations fs)) @
     [GlfwWindowShouldClose window]"

text \<open>The calls that a phase of \<^verbatim>\<open>main\<close> adds to the log.\<close>

definition phase_calls :: "(world \<Rightarrow> world) \<Rightarrow> call list" where
  "phase_calls ph = calls (ph init_world)"

text \<open>The calls that only the frame loop makes.\<close>

definition in_loop :: "call \<Rightarrow> bool" where
  "in_loop c =
     (case c of
        GlfwWindowShouldClose w \<Rightarrow> True
      | GlfwGetKey w k \<Rightarrow> True
      | GlfwSetWindowShouldClose w v \<Rightarrow> True
      | GlClear m \<Rightarrow> True
      | GlUseProgram p \<Rightarrow> True
      | GlDrawArrays m i n \<Rightarrow> True
      | GlfwSwapBuffers w \<Rightarrow> True
      | GlfwPollEvents \<Rightarrow> True
      | GlViewport x y w h \<Rightarrow> True
      | _ \<Rightarrow> False)"

subsection \<open>GPU objects\<close>

datatype resource = VertexArray | VertexBuffer | ShaderProgram

text \<open>How many objects of a kind a call creates, and how many it deletes.\<close>

definition creates :: "resource \<Rightarrow> call \<Rightarrow> nat" where
  "creates r c =
     (case c of
        GlGenVertexArrays n \<Rightarrow> (if r = VertexArray then n else 0)
      | GlGenBuffers n \<Rightarrow> (if r = VertexBuffer then n else 0)
      | GlCreateProgram \<Rightarrow> (if r = ShaderProgram then 1 else 0)
      | _ \<Rightarrow> 0)"

definition destroys :: "resource \<Rightarrow> call \<Rightarrow> nat" where
  "destroys r c =
     (case c of
        GlDeleteVertexArrays n a \<Rightarrow> (if r = VertexArray then n else 0)
      | GlDeleteBuffers n b \<Rightarrow> (if r = VertexBuffer then n else 0)
      | GlDeleteProgram p \<Rightarrow> (if r = ShaderProgram then 1 else 0)
      | _ \<Rightarrow> 0)"

definition created :: "resource \<Rightarrow> call list \<Rightarrow> nat" where
  "created r cs = sum_list (map (creates r) cs)"

definition destroyed :: "resource \<Rightarrow> call list \<Rightarrow> nat" where
  "destroyed r cs = sum_list (map (destroys r) cs)"

text \<open>The delete calls for the three kinds of object.\<close>

definition is_delete :: "call \<Rightarrow> bool" where
  "is_delete c =
     (case c of
        GlDeleteVertexArrays n a \<Rightarrow> True
      | GlDeleteBuffers n b \<Rightarrow> True
      | GlDeleteProgram p \<Rightarrow> True
      | _ \<Rightarrow> False)"

text \<open>The calls that write the contents of a buffer, and those that describe an attribute.\<close>

definition is_upload :: "call \<Rightarrow> bool" where
  "is_upload c = (case c of GlBufferData t n d u \<Rightarrow> True | _ \<Rightarrow> False)"

definition is_attribute_setup :: "call \<Rightarrow> bool" where
  "is_attribute_setup c =
     (case c of
        GlVertexAttribPointer i n t z st off \<Rightarrow> True
      | GlEnableVertexAttribArray i \<Rightarrow> True
      | _ \<Rightarrow> False)"

text \<open>What the program wrote to standard error, one entry per output statement.\<close>

definition stderr_of :: "call list \<Rightarrow> string list" where
  "stderr_of cs = concat (map (\<lambda>c. case c of Cerr t \<Rightarrow> [t] | _ \<Rightarrow> []) cs)"

subsection \<open>Sample inputs\<close>

definition frame_idle :: frame_input where
  "frame_idle = \<lparr>escape_pressed = False, close_requested = False, resizes = [(1024, 768)]\<rparr>"

definition frame_escape :: frame_input where
  "frame_escape = \<lparr>escape_pressed = True, close_requested = False, resizes = []\<rparr>"

text \<open>
  A run in which everything but the vertex shader succeeds, and the user presses
  Escape in the second frame.
\<close>

definition env_escape :: env where
  "env_escape =
     \<lparr>glfwInit_ok = True, created_window = Some 1, gladLoadGLLoader_ok = True,
      gen_VAO = 1, gen_VBO = 1,
      vertexShader_name = 1, vertex_compile_status = False,
      vertex_log = ''0(4) : error C0000: syntax error'',
      fragmentShader_name = 2, fragment_compile_status = True, fragment_log = [],
      shaderProgram_name = 3, link_status = True, link_log = [],
      frames = [frame_idle, frame_escape, frame_idle]\<rparr>"

definition env_init_fails :: env where
  "env_init_fails = env_escape\<lparr>glfwInit_ok := False\<rparr>"

definition env_no_window :: env where
  "env_no_window = env_escape\<lparr>created_window := None\<rparr>"

definition env_no_loader :: env where
  "env_no_loader = env_escape\<lparr>gladLoadGLLoader_ok := False\<rparr>"

section \<open>Properties\<close>

subsection \<open>The log and the flag, call by call\<close>

lemma calls_emit [simp]: "calls (emit c s) = calls s @ [c]"
  by (simp add: emit_def)

lemma shouldClose_emit [simp]: "shouldClose (emit c s) = shouldClose s"
  by (simp add: emit_def)

lemma calls_dispatch:
  "calls (fold (\<lambda>(width, height). framebuffer_size_callback window width height) rs s) =
     calls s @ map (\<lambda>(width, height). GlViewport 0 0 width height) rs"
  by (induction rs arbitrary: s) (simp_all add: framebuffer_size_callback_def split_beta)

lemma shouldClose_dispatch:
  "shouldClose (fold (\<lambda>(width, height). framebuffer_size_callback window width height) rs s) =
     shouldClose s"
  by (induction rs arbitrary: s) (simp_all add: framebuffer_size_callback_def split_beta)

lemma calls_glfwPollEvents:
  "calls (glfwPollEvents window f s) = calls s @ GlfwPollEvents # viewport_updates f"
  by (simp add: glfwPollEvents_def Let_def calls_dispatch viewport_updates_def)

lemma shouldClose_glfwPollEvents:
  "shouldClose (glfwPollEvents window f s) = (shouldClose s \<or> close_requested f)"
  by (simp add: glfwPollEvents_def Let_def shouldClose_dispatch)

lemma calls_frame_body:
  "calls (frame_body window shaderProgram VAO f s) =
     calls s @ frame_steps window shaderProgram VAO f"
  by (simp add: frame_body_def Let_def calls_glfwPollEvents frame_steps_def
      glfwSetWindowShouldClose_def)

lemma shouldClose_frame_body:
  "shouldClose (frame_body window shaderProgram VAO f s) = (shouldClose s \<or> closes f)"
  by (auto simp add: frame_body_def Let_def shouldClose_glfwPollEvents closes_def
      glfwSetWindowShouldClose_def)

lemma loop_calls_Nil: "loop_calls window shaderProgram VAO [] = [GlfwWindowShouldClose window]"
  by (simp add: loop_calls_def)

lemma loop_calls_Cons:
  "loop_calls window shaderProgram VAO (f # fs) =
     GlfwWindowShouldClose window # frame_steps window shaderProgram VAO f @
     (if closes f then [GlfwWindowShouldClose window]
      else loop_calls window shaderProgram VAO fs)"
  by (simp add: loop_calls_def)

lemma calls_render_loop:
  "calls (fst (render_loop window shaderProgram VAO fs s)) =
     calls s @ (if shouldClose s then [GlfwWindowShouldClose window]
                else loop_calls window shaderProgram VAO fs)"
proof (induction fs arbitrary: s)
  case Nil
  show ?case by (simp add: Let_def loop_calls_Nil)
next
  case (Cons f fs)
  show ?case
    by (simp add: Let_def Cons.IH calls_frame_body shouldClose_frame_body loop_calls_Cons)
qed

lemma left_render_loop:
  "snd (render_loop window shaderProgram VAO fs s) = (shouldClose s \<or> (\<exists>f\<in>set fs. closes f))"
proof (induction fs arbitrary: s)
  case Nil
  show ?case by (simp add: Let_def)
next
  case (Cons f fs)
  show ?case
    by (simp add: Let_def Cons.IH shouldClose_frame_body)
qed

lemma shouldClose_render_loop:
  "shouldClose (fst (render_loop window shaderProgram VAO fs s)) =
     (shouldClose s \<or> (\<exists>f\<in>set fs. closes f))"
proof (induction fs arbitrary: s)
  case Nil
  show ?case by (simp add: Let_def)
next
  case (Cons f fs)
  show ?case
    by (simp add: Let_def Cons.IH shouldClose_frame_body)
qed

lemma calls_upload_geometry:
  "calls (upload_geometry e s) = calls s @ phase_calls (upload_geometry e)"
  by (simp add: upload_geometry_def phase_calls_def Let_def init_world_def)

lemma shouldClose_upload_geometry: "shouldClose (upload_geometry e s) = shouldClose s"
  by (simp add: upload_geometry_def Let_def)

lemma calls_build_program:
  "calls (build_program e s) = calls s @ phase_calls (build_program e)"
  by (simp add: build_program_def phase_calls_def Let_def init_world_def)

lemma shouldClose_build_program: "shouldClose (build_program e s) = shouldClose s"
  by (simp add: build_program_def Let_def)

lemma calls_shutdown:
  "calls (shutdown e s) = calls s @ phase_calls (shutdown e)"
  by (simp add: shutdown_def phase_calls_def Let_def init_world_def)

lemma bootstrap_ok:
  assumes "glfwInit_ok e" "created_window e = Some window" "gladLoadGLLoader_ok e"
  shows "fst (bootstrap e init_world) = Inr window"
    and "shouldClose (snd (bootstrap e init_world)) = False"
  using assms by (simp_all add: bootstrap_def Let_def init_world_def)

lemma main_ok:
  assumes "glfwInit_ok e" "created_window e = Some window" "gladLoadGLLoader_ok e"
  shows "calls (fst (main e)) =
           calls (snd (bootstrap e init_world)) @
           phase_calls (upload_geometry e) @
           phase_calls (build_program e) @
           loop_calls window (shaderProgram_name e) (gen_VAO e) (frames e) @
           (if \<exists>f\<in>set (frames e). closes f then phase_calls (shutdown e) else [])"
    and "snd (main e) = (if \<exists>f\<in>set (frames e). closes f then Some 0 else None)"
proof -
  obtain s where b: "bootstrap e init_world = (Inr window, s)" and sc: "\<not> shouldClose s"
    using bootstrap_ok [OF assms] by (cases "bootstrap e init_world") auto
  let ?s2 = "build_program e (upload_geometry e s)"
  have sc2: "\<not> shouldClose ?s2"
    using sc by (simp add: shouldClose_build_program shouldClose_upload_geometry)
  obtain s3 left where r: "render_loop window (shaderProgram_name e) (gen_VAO e) (frames e) ?s2 = (s3, left)"
    by (cases "render_loop window (shaderProgram_name e) (gen_VAO e) (frames e) ?s2")
  have l: "left = (\<exists>f\<in>set (frames e). closes f)"
    using left_render_loop [of window "shaderProgram_name e" "gen_VAO e" "frames e" ?s2] sc2 r
    by simp
  have c: "calls s3 = calls ?s2 @ loop_calls window (shaderProgram_name e) (gen_VAO e) (frames e)"
    using calls_render_loop [of window "shaderProgram_name e" "gen_VAO e" "frames e" ?s2] sc2 r
    by simp
  have m: "main e = (if left then (shutdown e s3, Some 0) else (s3, None))"
    by (simp add: main_def b r Let_def)
  show "calls (fst (main e)) =
           calls (snd (bootstrap e init_world)) @
           phase_calls (upload_geometry e) @
           phase_calls (build_program e) @
           loop_calls window (shaderProgram_name e) (gen_VAO e) (frames e) @
           (if \<exists>f\<in>set (frames e). closes f then phase_calls (shutdown e) else [])"
    using l by (simp add: m c b calls_shutdown calls_build_program calls_upload_geometry)
  show "snd (main e) = (if \<exists>f\<in>set (frames e). closes f then Some 0 else None)"
    using l by (simp add: m)
qed

lemma iterations_until:
  "\<forall>g\<in>set pre. \<not> closes g \<Longrightarrow> closes f \<Longrightarrow> iterations (pre @ f # fs) = pre @ [f]"
  by (induction pre) simp_all

subsection \<open>The frame loop\<close>

text \<open>
  Claim C1. The frame loop runs while the close flag of the window is unset, and
  every iteration performs exactly these steps in this order: it polls the
  Escape key (and sets the close flag if the key is pressed), clears the colour
  buffer, binds the linked shader program, binds the vertex-array descriptor,
  issues one triangle draw call over 3 vertices starting at index 0, swaps the
  presented buffer, and polls and dispatches the window events (the dispatch
  runs the resize callback of the program for every resize event). The log of
  the loop is the test of the flag followed by these steps, once for every frame
  up to and including the first that raises the flag, and a last test of the flag.
\<close>

theorem frame_loop_iterations:
  assumes "\<not> shouldClose s"
  shows "calls (fst (render_loop window shaderProgram VAO fs s)) =
           calls s @
           concat (map (\<lambda>f. GlfwWindowShouldClose window #
                             frame_steps window shaderProgram VAO f)
                     (iterations fs)) @
           [GlfwWindowShouldClose window]"
  using assms by (simp add: calls_render_loop loop_calls_def)

theorem frame_loop_iterations_witness:
  "\<not> shouldClose init_world \<and>
   calls (fst (render_loop 1 3 1 [frame_idle, frame_escape, frame_idle] init_world)) =
     [GlfwWindowShouldClose 1,
      GlfwGetKey 1 GLFW_KEY_ESCAPE,
      GlClear GL_COLOR_BUFFER_BIT, GlUseProgram 3, GlBindVertexArray 1,
      GlDrawArrays GL_TRIANGLES 0 3, GlfwSwapBuffers 1, GlfwPollEvents,
      GlViewport 0 0 1024 768,
      GlfwWindowShouldClose 1,
      GlfwGetKey 1 GLFW_KEY_ESCAPE, GlfwSetWindowShouldClose 1 True,
      GlClear GL_COLOR_BUFFER_BIT, GlUseProgram 3, GlBindVertexArray 1,
      GlDrawArrays GL_TRIANGLES 0 3, GlfwSwapBuffers 1, GlfwPollEvents,
      GlfwWindowShouldClose 1]"
proof -
  have h: "\<not> shouldClose init_world"
    by (simp add: init_world_def)
  show ?thesis
    using h frame_loop_iterations [OF h, of 1 3 1 "[frame_idle, frame_escape, frame_idle]"]
    by (simp add: init_world_def frame_steps_def viewport_updates_def closes_def
        frame_idle_def frame_escape_def)
qed

text \<open>
  Claim C5. If the Escape key is pressed during an iteration, the close flag is
  set but that iteration still completes in full: the clear, the binds, the draw
  call, the swap and the event poll all follow the call that sets the flag. The
  loop is left only at the next test of the flag, whatever the later inputs are.
\<close>

theorem escape_completes_frame:
  assumes "\<not> shouldClose s" and "\<forall>g\<in>set pre. \<not> closes g" and "escape_pressed f"
  shows "calls (fst (render_loop window shaderProgram VAO (pre @ f # fs) s)) =
           calls s @
           concat (map (\<lambda>g. GlfwWindowShouldClose window #
                             frame_steps window shaderProgram VAO g) pre) @
           [GlfwWindowShouldClose window,
            GlfwGetKey window GLFW_KEY_ESCAPE,
            GlfwSetWindowShouldClose window True,
            GlClear GL_COLOR_BUFFER_BIT,
            GlUseProgram shaderProgram,
            GlBindVertexArray VAO,
            GlDrawArrays GL_TRIANGLES 0 3,
            GlfwSwapBuffers window,
            GlfwPollEvents] @
           viewport_updates f @
           [GlfwWindowShouldClose window] \<and>
         snd (render_loop window shaderProgram VAO (pre @ f # fs) s) \<and>
         shouldClose (fst (render_loop window shaderProgram VAO (pre @ f # fs) s))"
proof -
  have c: "closes f"
    using assms(3) by (simp add: closes_def)
  have i: "iterations (pre @ f # fs) = pre @ [f]"
    using assms(2) c by (rule iterations_until)
  have "calls (fst (render_loop window shaderProgram VAO (pre @ f # fs) s)) =
          calls s @ loop_calls window shaderProgram VAO (pre @ f # fs)"
    using assms(1) by (simp add: calls_render_loop)
  moreover have "loop_calls window shaderProgram VAO (pre @ f # fs) =
          concat (map (\<lambda>g. GlfwWindowShouldClose window #
                             frame_steps window shaderProgram VAO g) pre) @
           [GlfwWindowShouldClose window,
            GlfwGetKey window GLFW_KEY_ESCAPE,
            GlfwSetWindowShouldClose window True,
            GlClear GL_COLOR_BUFFER_BIT,
            GlUseProgram shaderProgram,
            GlBindVertexArray VAO,
            GlDrawArrays GL_TRIANGLES 0 3,
            GlfwSwapBuffers window,
            GlfwPollEvents] @
           viewport_updates f @
           [GlfwWindowShouldClose window]"
    using assms(3) by (simp add: loop_calls_def i frame_steps_def)
  moreover have "snd (render_loop window shaderProgram VAO (pre @ f # fs) s)"
    using c by (simp add: left_render_loop)
  moreover have "shouldClose (fst (render_loop window shaderProgram VAO (pre @ f # fs) s))"
    using c by (simp add: shouldClose_render_loop)
  ultimately show ?thesis by simp
qed

theorem escape_completes_frame_witness:
  "\<not> shouldClose init_world \<and> \<not> closes frame_idle \<and>
   escape_pressed frame_escape \<and>
   calls (fst (render_loop 1 3 1 ([frame_idle] @ frame_escape # [frame_idle]) init_world)) =
     [GlfwWindowShouldClose 1,
      GlfwGetKey 1 GLFW_KEY_ESCAPE,
      GlClear GL_COLOR_BUFFER_BIT, GlUseProgram 3, GlBindVertexArray 1,
      GlDrawArrays GL_TRIANGLES 0 3, GlfwSwapBuffers 1, GlfwPollEvents,
      GlViewport 0 0 1024 768,
      GlfwWindowShouldClose 1,
      GlfwGetKey 1 GLFW_KEY_ESCAPE, GlfwSetWindowShouldClose 1 True,
      GlClear GL_COLOR_BUFFER_BIT, GlUseProgram 3, GlBindVertexArray 1,
      GlDrawArrays GL_TRIANGLES 0 3, GlfwSwapBuffers 1, GlfwPollEvents,
      GlfwWindowShouldClose 1] \<and>
   snd (render_loop 1 3 1 ([frame_idle] @ frame_escape # [frame_idle]) init_world)"
proof -
  have h1: "\<not> shouldClose init_world"
    by (simp add: init_world_def)
  have h2: "\<forall>g\<in>set [frame_idle]. \<not> closes g"
    by (simp add: closes_def frame_idle_def)
  have h3: "escape_pressed frame_escape"
    by (simp add: frame_escape_def)
  show ?thesis
    using h1 h2 h3 escape_completes_frame [OF h1 h2 h3, of 1 3 1 "[frame_idle]"]
    by (simp add: init_world_def frame_steps_def viewport_updates_def
        frame_idle_def frame_escape_def)
qed

subsection \<open>The calls of each phase\<close>

lemma bootstrap_calls:
  assumes "glfwInit_ok e" "created_window e = Some window" "gladLoadGLLoader_ok e"
  shows "calls (snd (bootstrap e init_world)) =
           [GlfwInit,
            GlfwWindowHint GLFW_CONTEXT_VERSION_MAJOR (HintInt 3),
            GlfwWindowHint GLFW_CONTEXT_VERSION_MINOR (HintInt 3),
            GlfwWindowHint GLFW_OPENGL_PROFILE GLFW_OPENGL_CORE_PROFILE,
            GlfwCreateWindow 800 600 ''Triangulo OpenGL'',
            GlfwMakeContextCurrent window,
            GlfwSetFramebufferSizeCallback window,
            GladLoadGLLoader]"
  using assms by (simp add: bootstrap_def Let_def init_world_def)

lemma upload_calls:
  "phase_calls (upload_geometry e) =
     [GlGenVertexArrays 1,
      GlGenBuffers 1,
      GlBindVertexArray (gen_VAO e),
      GlBindBuffer GL_ARRAY_BUFFER (gen_VBO e),
      GlBufferData GL_ARRAY_BUFFER sizeof_vertices vertices GL_STATIC_DRAW,
      GlVertexAttribPointer 0 3 GL_FLOAT False (3 * sizeof_float) 0,
      GlEnableVertexAttribArray 0]"
  by (simp add: phase_calls_def upload_geometry_def Let_def init_world_def)

lemma shutdown_calls:
  "phase_calls (shutdown e) =
     [GlDeleteVertexArrays 1 (gen_VAO e),
      GlDeleteBuffers 1 (gen_VBO e),
      GlDeleteProgram (shaderProgram_name e),
      GlfwTerminate]"
  by (simp add: phase_calls_def shutdown_def Let_def init_world_def)

lemma build_calls:
  "phase_calls (build_program e) =
     [GlCreateShader GL_VERTEX_SHADER,
      GlShaderSource (vertexShader_name e) 1 vertexShaderSource,
      GlCompileShader (vertexShader_name e),
      GlGetShaderiv (vertexShader_name e) GL_COMPILE_STATUS] @
     (if vertex_compile_status e then []
      else [GlGetShaderInfoLog (vertexShader_name e) 512,
            report ''ERROR::VERTEX_SHADER_COMPILATION_FAILED''
              (glGetInfoLog 512 (vertex_log e))]) @
     [GlCreateShader GL_FRAGMENT_SHADER,
      GlShaderSource (fragmentShader_name e) 1 fragmentShaderSource,
      GlCompileShader (fragmentShader_name e),
      GlGetShaderiv (fragmentShader_name e) GL_COMPILE_STATUS] @
     (if fragment_compile_status e then []
      else [GlGetShaderInfoLog (fragmentShader_name e) 512,
            report ''ERROR::FRAGMENT_SHADER_COMPILATION_FAILED''
              (glGetInfoLog 512 (fragment_log e))]) @
     [GlCreateProgram,
      GlAttachShader (shaderProgram_name e) (vertexShader_name e),
      GlAttachShader (shaderProgram_name e) (fragmentShader_name e),
      GlLinkProgram (shaderProgram_name e),
      GlGetProgramiv (shaderProgram_name e) GL_LINK_STATUS] @
     (if link_status e then []
      else [GlGetProgramInfoLog (shaderProgram_name e) 512,
            report ''ERROR::SHADER_PROGRAM_LINKING_FAILED''
              (glGetInfoLog 512 (link_log e))]) @
     [GlDeleteShader (vertexShader_name e),
      GlDeleteShader (fragmentShader_name e)]"
  by (simp add: phase_calls_def build_program_def Let_def init_world_def)

lemma loop_calls_members:
  assumes "c \<in> set (loop_calls window shaderProgram VAO fs)"
  shows "in_loop c \<or> c = GlBindVertexArray VAO"
  using assms
  by (auto simp: loop_calls_def frame_steps_def viewport_updates_def in_loop_def
      split: if_splits)

lemma filter_loop_calls:
  assumes "\<And>c. in_loop c \<Longrightarrow> \<not> P c" and "\<not> P (GlBindVertexArray VAO)"
  shows "filter P (loop_calls window shaderProgram VAO fs) = []"
  using assms loop_calls_members [of _ window shaderProgram VAO fs]
  by (auto simp: filter_empty_conv)

lemma main_early:
  shows "\<not> glfwInit_ok e \<Longrightarrow> main e = (\<lparr>calls = [GlfwInit], shouldClose = False\<rparr>, Some (- 1))"
    and "glfwInit_ok e \<Longrightarrow> created_window e = None \<Longrightarrow>
           main e =
             (\<lparr>calls =
                 [GlfwInit,
                  GlfwWindowHint GLFW_CONTEXT_VERSION_MAJOR (HintInt 3),
                  GlfwWindowHint GLFW_CONTEXT_VERSION_MINOR (HintInt 3),
                  GlfwWindowHint GLFW_OPENGL_PROFILE GLFW_OPENGL_CORE_PROFILE,
                  GlfwCreateWindow 800 600 ''Triangulo OpenGL'',
                  GlfwTerminate],
               shouldClose = False\<rparr>, Some (- 1))"
    and "glfwInit_ok e \<Longrightarrow> created_window e = Some window \<Longrightarrow> \<not> gladLoadGLLoader_ok e \<Longrightarrow>
           main e =
             (\<lparr>calls =
                 [GlfwInit,
                  GlfwWindowHint GLFW_CONTEXT_VERSION_MAJOR (HintInt 3),
                  GlfwWindowHint GLFW_CONTEXT_VERSION_MINOR (HintInt 3),
                  GlfwWindowHint GLFW_OPENGL_PROFILE GLFW_OPENGL_CORE_PROFILE,
                  GlfwCreateWindow 800 600 ''Triangulo OpenGL'',
                  GlfwMakeContextCurrent window,
                  GlfwSetFramebufferSizeCallback window,
                  GladLoadGLLoader,
                  Cerr (''Failed to initialize GLAD'' @ newline)],
               shouldClose = False\<rparr>, Some (- 1))"
  by (simp_all add: main_def bootstrap_def Let_def init_world_def emit_def)

subsection \<open>Exit paths\<close>

text \<open>
  Claim C3. If the initialisation of the windowing library fails, the process
  exits at once with status -1. If the window cannot be created, the process
  releases the windowing library (\<^verbatim>\<open>glfwTerminate\<close>) and exits with the same
  status. If the GPU function pointers cannot be loaded, the process prints a
  message on standard error and exits with status -1. The exit status is 0 only
  on the normal path, where all three succeed and the loop is left because the
  close flag was raised.
\<close>

theorem exit_statuses:
  "(\<not> glfwInit_ok e \<longrightarrow>
      snd (main e) = Some (- 1) \<and> calls (fst (main e)) = [GlfwInit]) \<and>
   (glfwInit_ok e \<and> created_window e = None \<longrightarrow>
      snd (main e) = Some (- 1) \<and>
      calls (fst (main e)) =
        [GlfwInit,
         GlfwWindowHint GLFW_CONTEXT_VERSION_MAJOR (HintInt 3),
         GlfwWindowHint GLFW_CONTEXT_VERSION_MINOR (HintInt 3),
         GlfwWindowHint GLFW_OPENGL_PROFILE GLFW_OPENGL_CORE_PROFILE,
         GlfwCreateWindow 800 600 ''Triangulo OpenGL'',
         GlfwTerminate]) \<and>
   (glfwInit_ok e \<and> created_window e = Some window \<and> \<not> gladLoadGLLoader_ok e \<longrightarrow>
      snd (main e) = Some (- 1) \<and>
      calls (fst (main e)) =
        [GlfwInit,
         GlfwWindowHint GLFW_CONTEXT_VERSION_MAJOR (HintInt 3),
         GlfwWindowHint GLFW_CONTEXT_VERSION_MINOR (HintInt 3),
         GlfwWindowHint GLFW_OPENGL_PROFILE GLFW_OPENGL_CORE_PROFILE,
         GlfwCreateWindow 800 600 ''Triangulo OpenGL'',
         GlfwMakeContextCurrent window,
         GlfwSetFramebufferSizeCallback window,
         GladLoadGLLoader,
         Cerr (''Failed to initialize GLAD'' @ newline)]) \<and>
   (snd (main e) = Some 0 \<longrightarrow>
      glfwInit_ok e \<and> created_window e \<noteq> None \<and> gladLoadGLLoader_ok e \<and>
      (\<exists>f\<in>set (frames e). closes f))"
proof (intro conjI impI)
  assume z: "snd (main e) = Some 0"
  show "glfwInit_ok e"
    using z main_early(1) [of e] by (cases "glfwInit_ok e") simp_all
  then have i: "glfwInit_ok e" .
  show w: "created_window e \<noteq> None"
    using z i main_early(2) [of e] by (cases "created_window e") simp_all
  then obtain w0 where w0: "created_window e = Some w0" by (cases "created_window e") simp_all
  show g: "gladLoadGLLoader_ok e"
    using z i w0 main_early(3) [of e w0] by (cases "gladLoadGLLoader_ok e") simp_all
  show "\<exists>f\<in>set (frames e). closes f"
    using z main_ok(2) [OF i w0 g] by (simp split: if_splits)
qed (simp_all add: main_early)

theorem exit_statuses_witness:
  "\<not> glfwInit_ok env_init_fails \<and>
   snd (main env_init_fails) = Some (- 1) \<and>
   calls (fst (main env_init_fails)) = [GlfwInit] \<and>
   glfwInit_ok env_no_window \<and> created_window env_no_window = None \<and>
   snd (main env_no_window) = Some (- 1) \<and>
   last (calls (fst (main env_no_window))) = GlfwTerminate \<and>
   glfwInit_ok env_no_loader \<and> created_window env_no_loader = Some 1 \<and>
   \<not> gladLoadGLLoader_ok env_no_loader \<and>
   snd (main env_no_loader) = Some (- 1) \<and>
   last (calls (fst (main env_no_loader))) = Cerr (''Failed to initialize GLAD'' @ newline) \<and>
   snd (main env_escape) = Some 0 \<and>
   glfwInit_ok env_escape \<and> created_window env_escape \<noteq> None \<and>
   gladLoadGLLoader_ok env_escape \<and> (\<exists>f\<in>set (frames env_escape). closes f)"
proof -
  have z: "snd (main env_escape) = Some 0"
    by (simp add: main_def bootstrap_def upload_geometry_def build_program_def shutdown_def
        frame_body_def glfwPollEvents_def glfwSetWindowShouldClose_def emit_def Let_def
        init_world_def env_escape_def frame_idle_def frame_escape_def)
  show ?thesis
    using z exit_statuses [of env_init_fails 1] exit_statuses [of env_no_window 1]
      exit_statuses [of env_no_loader 1] exit_statuses [of env_escape 1]
    by (simp add: env_init_fails_def env_no_window_def env_no_loader_def env_escape_def)
qed

text \<open>
  Claim C10. On the path where the GPU function pointers cannot be loaded, the
  process returns -1 without calling \<^verbatim>\<open>glfwTerminate\<close>: the window and its
  context were created, and nothing releases them or the windowing library on
  that path. The path where the window cannot be created does call
  \<^verbatim>\<open>glfwTerminate\<close>, as its last call before it exits.
\<close>

theorem loader_failure_skips_terminate:
  "(glfwInit_ok e \<and> created_window e = Some window \<and> \<not> gladLoadGLLoader_ok e \<longrightarrow>
      snd (main e) = Some (- 1) \<and>
      GlfwCreateWindow 800 600 ''Triangulo OpenGL'' \<in> set (calls (fst (main e))) \<and>
      GlfwMakeContextCurrent window \<in> set (calls (fst (main e))) \<and>
      GlfwTerminate \<notin> set (calls (fst (main e)))) \<and>
   (glfwInit_ok e \<and> created_window e = None \<longrightarrow>
      snd (main e) = Some (- 1) \<and>
      last (calls (fst (main e))) = GlfwTerminate)"
  by (simp add: main_early)

theorem loader_failure_skips_terminate_witness:
  "glfwInit_ok env_no_loader \<and> created_window env_no_loader = Some 1 \<and>
   \<not> gladLoadGLLoader_ok env_no_loader \<and>
   snd (main env_no_loader) = Some (- 1) \<and>
   GlfwTerminate \<notin> set (calls (fst (main env_no_loader))) \<and>
   glfwInit_ok env_no_window \<and> created_window env_no_window = None \<and>
   snd (main env_no_window) = Some (- 1) \<and>
   last (calls (fst (main env_no_window))) = GlfwTerminate"
  using loader_failure_skips_terminate [of env_no_loader 1]
    loader_failure_skips_terminate [of env_no_window 1]
  by (simp add: env_no_loader_def env_no_window_def env_escape_def)

subsection \<open>Shutdown\<close>

lemma no_delete_before_shutdown:
  assumes "glfwInit_ok e" "created_window e = Some window" "gladLoadGLLoader_ok e"
  shows "filter is_delete
           (calls (snd (bootstrap e init_world)) @
            phase_calls (upload_geometry e) @
            phase_calls (build_program e) @
            loop_calls window (shaderProgram_name e) (gen_VAO e) (frames e)) = []"
proof -
  have "filter is_delete (calls (snd (bootstrap e init_world))) = []"
    by (simp add: bootstrap_calls [OF assms] is_delete_def)
  moreover have "filter is_delete (phase_calls (upload_geometry e)) = []"
    by (simp add: upload_calls is_delete_def)
  moreover have "filter is_delete (phase_calls (build_program e)) = []"
    by (simp add: build_calls is_delete_def report_def)
  moreover have "filter is_delete
      (loop_calls window (shaderProgram_name e) (gen_VAO e) (frames e)) = []"
    by (rule filter_loop_calls) (auto simp: is_delete_def in_loop_def split: call.splits)
  ultimately show ?thesis by simp
qed

text \<open>
  Claim C4. On the normal path (the three initialisations succeed and some frame
  raises the close flag) the program deletes the vertex-array descriptor, then
  the vertex buffer, then the shader program, then terminates the windowing
  library, and returns status 0. These are the last four calls of the run, and
  the run makes exactly one delete call for each of the three objects.
\<close>

theorem normal_exit_cleanup:
  assumes "glfwInit_ok e" and "created_window e = Some window" and "gladLoadGLLoader_ok e"
    and "\<exists>f\<in>set (frames e). closes f"
  shows "snd (main e) = Some 0 \<and>
         (\<exists>before. calls (fst (main e)) =
            before @
            [GlDeleteVertexArrays 1 (gen_VAO e),
             GlDeleteBuffers 1 (gen_VBO e),
             GlDeleteProgram (shaderProgram_name e),
             GlfwTerminate]) \<and>
         filter is_delete (calls (fst (main e))) =
           [GlDeleteVertexArrays 1 (gen_VAO e),
            GlDeleteBuffers 1 (gen_VBO e),
            GlDeleteProgram (shaderProgram_name e)]"
proof -
  let ?before = "calls (snd (bootstrap e init_world)) @
            phase_calls (upload_geometry e) @
            phase_calls (build_program e) @
            loop_calls window (shaderProgram_name e) (gen_VAO e) (frames e)"
  have c: "calls (fst (main e)) = ?before @
            [GlDeleteVertexArrays 1 (gen_VAO e),
             GlDeleteBuffers 1 (gen_VBO e),
             GlDeleteProgram (shaderProgram_name e),
             GlfwTerminate]"
    using assms(4) main_ok(1) [OF assms(1-3)] by (simp add: shutdown_calls)
  have s: "snd (main e) = Some 0"
    using assms(4) main_ok(2) [OF assms(1-3)] by simp
  have "filter is_delete (calls (fst (main e))) =
          filter is_delete ?before @
          [GlDeleteVertexArrays 1 (gen_VAO e),
           GlDeleteBuffers 1 (gen_VBO e),
           GlDeleteProgram (shaderProgram_name e)]"
    unfolding c filter_append by (simp add: is_delete_def)
  then have d: "filter is_delete (calls (fst (main e))) =
          [GlDeleteVertexArrays 1 (gen_VAO e),
           GlDeleteBuffers 1 (gen_VBO e),
           GlDeleteProgram (shaderProgram_name e)]"
    by (simp only: no_delete_before_shutdown [OF assms(1-3)] append_Nil)
  from s c d show ?thesis by blast
qed

theorem normal_exit_cleanup_witness:
  "glfwInit_ok env_escape \<and> created_window env_escape = Some 1 \<and>
   gladLoadGLLoader_ok env_escape \<and> (\<exists>f\<in>set (frames env_escape). closes f) \<and>
   snd (main env_escape) = Some 0 \<and>
   (\<exists>before. calls (fst (main env_escape)) =
      before @ [GlDeleteVertexArrays 1 1, GlDeleteBuffers 1 1, GlDeleteProgram 3, GlfwTerminate]) \<and>
   filter is_delete (calls (fst (main env_escape))) =
     [GlDeleteVertexArrays 1 1, GlDeleteBuffers 1 1, GlDeleteProgram 3]"
proof -
  have h1: "glfwInit_ok env_escape"
    by (simp add: env_escape_def)
  have h2: "created_window env_escape = Some 1"
    by (simp add: env_escape_def)
  have h3: "gladLoadGLLoader_ok env_escape"
    by (simp add: env_escape_def)
  have h4: "\<exists>f\<in>set (frames env_escape). closes f"
    by (simp add: env_escape_def closes_def frame_escape_def)
  have v: "gen_VAO env_escape = 1" "gen_VBO env_escape = 1" "shaderProgram_name env_escape = 3"
    by (simp_all add: env_escape_def)
  show ?thesis
    using h1 h2 h3 h4 normal_exit_cleanup [OF h1 h2 h3 h4]
    by (simp add: v)
qed

subsection \<open>Shader build failures\<close>

lemma stderr_of_append: "stderr_of (xs @ ys) = stderr_of xs @ stderr_of ys"
  by (simp add: stderr_of_def)

lemma stderr_of_Nil: "stderr_of [] = []"
  by (simp add: stderr_of_def)

lemma stderr_of_loop_calls: "stderr_of (loop_calls window shaderProgram VAO fs) = []"
proof -
  have "(case c of Cerr t \<Rightarrow> [t] | _ \<Rightarrow> []) = []"
    if "c \<in> set (loop_calls window shaderProgram VAO fs)" for c
    using loop_calls_members [OF that] by (auto simp: in_loop_def split: call.splits)
  then show ?thesis
    by (simp add: stderr_of_def)
qed

lemma no_in_loop_setup:
  assumes "glfwInit_ok e" "created_window e = Some window" "gladLoadGLLoader_ok e"
  shows "\<forall>c\<in>set (calls (snd (bootstrap e init_world)) @
                 phase_calls (upload_geometry e) @
                 phase_calls (build_program e)). \<not> in_loop c"
  by (simp add: bootstrap_calls [OF assms] upload_calls build_calls in_loop_def report_def)

text \<open>
  Claim C2. For every shader compile failure and every program link failure the
  program fetches the corresponding log into a buffer of 512 characters, so up to
  511 characters of it, and prints it on standard error after a header line.
  Nothing else is printed once the loader has succeeded. Whatever the three
  status flags are, execution continues: the preparation is followed by the frame loop,
  and the process ends only through the loop (status 0 when some frame raises
  the close flag, still running otherwise), never with a failure status.
\<close>

theorem build_failures_logged_not_fatal:
  assumes "glfwInit_ok e" and "created_window e = Some window" and "gladLoadGLLoader_ok e"
  shows "stderr_of (calls (fst (main e))) =
           (if vertex_compile_status e then []
            else [''ERROR::VERTEX_SHADER_COMPILATION_FAILED'' @ newline @
                  take 511 (vertex_log e) @ newline]) @
           (if fragment_compile_status e then []
            else [''ERROR::FRAGMENT_SHADER_COMPILATION_FAILED'' @ newline @
                  take 511 (fragment_log e) @ newline]) @
           (if link_status e then []
            else [''ERROR::SHADER_PROGRAM_LINKING_FAILED'' @ newline @
                  take 511 (link_log e) @ newline]) \<and>
         (\<exists>prelude. (\<forall>c\<in>set prelude. \<not> in_loop c) \<and>
            calls (fst (main e)) =
              prelude @
              loop_calls window (shaderProgram_name e) (gen_VAO e) (frames e) @
              (if \<exists>f\<in>set (frames e). closes f then phase_calls (shutdown e) else [])) \<and>
         snd (main e) = (if \<exists>f\<in>set (frames e). closes f then Some 0 else None)"
proof -
  let ?prelude = "calls (snd (bootstrap e init_world)) @
                phase_calls (upload_geometry e) @
                phase_calls (build_program e)"
  have c: "calls (fst (main e)) =
             ?prelude @
             loop_calls window (shaderProgram_name e) (gen_VAO e) (frames e) @
             (if \<exists>f\<in>set (frames e). closes f then phase_calls (shutdown e) else [])"
    using main_ok(1) [OF assms] by simp
  have b: "stderr_of (calls (snd (bootstrap e init_world))) = []"
    by (simp add: bootstrap_calls [OF assms] stderr_of_def)
  have u: "stderr_of (phase_calls (upload_geometry e)) = []"
    by (simp add: upload_calls stderr_of_def)
  have p: "stderr_of (phase_calls (build_program e)) =
           (if vertex_compile_status e then []
            else [''ERROR::VERTEX_SHADER_COMPILATION_FAILED'' @ newline @
                  take 511 (vertex_log e) @ newline]) @
           (if fragment_compile_status e then []
            else [''ERROR::FRAGMENT_SHADER_COMPILATION_FAILED'' @ newline @
                  take 511 (fragment_log e) @ newline]) @
           (if link_status e then []
            else [''ERROR::SHADER_PROGRAM_LINKING_FAILED'' @ newline @
                  take 511 (link_log e) @ newline])"
    by (simp add: build_calls stderr_of_def report_def glGetInfoLog_def)
  have d: "stderr_of (phase_calls (shutdown e)) = []"
    by (simp add: shutdown_calls stderr_of_def)
  have "stderr_of (calls (fst (main e))) = stderr_of (phase_calls (build_program e))"
    unfolding c by (simp add: stderr_of_append stderr_of_Nil b u d stderr_of_loop_calls)
  then have 1: "stderr_of (calls (fst (main e))) =
           (if vertex_compile_status e then []
            else [''ERROR::VERTEX_SHADER_COMPILATION_FAILED'' @ newline @
                  take 511 (vertex_log e) @ newline]) @
           (if fragment_compile_status e then []
            else [''ERROR::FRAGMENT_SHADER_COMPILATION_FAILED'' @ newline @
                  take 511 (fragment_log e) @ newline]) @
           (if link_status e then []
            else [''ERROR::SHADER_PROGRAM_LINKING_FAILED'' @ newline @
                  take 511 (link_log e) @ newline])"
    by (simp only: p)
  have 2: "\<exists>prelude. (\<forall>c\<in>set prelude. \<not> in_loop c) \<and>
            calls (fst (main e)) =
              prelude @
              loop_calls window (shaderProgram_name e) (gen_VAO e) (frames e) @
              (if \<exists>f\<in>set (frames e). closes f then phase_calls (shutdown e) else [])"
    using c no_in_loop_setup [OF assms] by blast
  have 3: "snd (main e) = (if \<exists>f\<in>set (frames e). closes f then Some 0 else None)"
    using main_ok(2) [OF assms] .
  from 1 2 3 show ?thesis by blast
qed

theorem build_failures_logged_not_fatal_witness:
  "glfwInit_ok env_escape \<and> created_window env_escape = Some 1 \<and>
   gladLoadGLLoader_ok env_escape \<and>
   \<not> vertex_compile_status env_escape \<and>
   stderr_of (calls (fst (main env_escape))) =
     [''ERROR::VERTEX_SHADER_COMPILATION_FAILED'' @ newline @
      ''0(4) : error C0000: syntax error'' @ newline] \<and>
   snd (main env_escape) = Some 0"
proof -
  have h1: "glfwInit_ok env_escape"
    by (simp add: env_escape_def)
  have h2: "created_window env_escape = Some 1"
    by (simp add: env_escape_def)
  have h3: "gladLoadGLLoader_ok env_escape"
    by (simp add: env_escape_def)
  have v: "\<not> vertex_compile_status env_escape" "fragment_compile_status env_escape"
    "link_status env_escape" "vertex_log env_escape = ''0(4) : error C0000: syntax error''"
    "\<exists>f\<in>set (frames env_escape). closes f"
    by (simp_all add: env_escape_def closes_def frame_escape_def)
  show ?thesis
    using h1 h2 h3 build_failures_logged_not_fatal [OF h1 h2 h3]
    by (simp add: v)
qed

subsection \<open>Lifetimes of the GPU objects\<close>

lemma mid_split:
  assumes "A @ L @ B = p @ c # q" and "\<forall>x\<in>set A. \<not> P x" and "\<forall>x\<in>set B. \<not> P x" and "P c"
  shows "\<exists>u v. p = A @ u \<and> L = u @ c # v"
proof -
  from assms(1) obtain u where
    "(A = p @ u \<and> u @ L @ B = c # q) \<or> (A @ u = p \<and> L @ B = u @ c # q)"
    by (auto simp: append_eq_append_conv2)
  then show ?thesis
  proof
    assume a: "A = p @ u \<and> u @ L @ B = c # q"
    show ?thesis
    proof (cases u)
      case Nil
      with a have p: "p = A" and lb: "L @ B = c # q" by simp_all
      show ?thesis
      proof (cases L)
        case Nil
        with lb assms(3,4) show ?thesis by auto
      next
        case (Cons l ls)
        with lb p show ?thesis by auto
      qed
    next
      case (Cons x xs)
      with a assms(2,4) show ?thesis by auto
    qed
  next
    assume b: "A @ u = p \<and> L @ B = u @ c # q"
    then obtain w where
      "(L = u @ w \<and> w @ B = c # q) \<or> (L @ w = u \<and> B = w @ c # q)"
      by (auto simp: append_eq_append_conv2)
    then show ?thesis
    proof
      assume c1: "L = u @ w \<and> w @ B = c # q"
      show ?thesis
      proof (cases w)
        case Nil
        with c1 assms(3,4) show ?thesis by auto
      next
        case (Cons x xs)
        with c1 b show ?thesis by auto
      qed
    next
      assume "L @ w = u \<and> B = w @ c # q"
      with assms(3,4) show ?thesis by auto
    qed
  qed
qed

lemma created_append: "created r (xs @ ys) = created r xs + created r ys"
  by (simp add: created_def)

lemma destroyed_append: "destroyed r (xs @ ys) = destroyed r xs + destroyed r ys"
  by (simp add: destroyed_def)

lemma created_Nil: "created r [] = 0"
  by (simp add: created_def)

lemma destroyed_Nil: "destroyed r [] = 0"
  by (simp add: destroyed_def)

lemma prefix_counts:
  assumes "X @ B = p @ q" and "destroyed r X = 0" and "created r X \<le> 1"
    and "created r B = 0" and "destroyed r B \<le> created r X"
  shows "destroyed r p \<le> created r p \<and> created r p \<le> 1"
proof -
  from assms(1) obtain u where
    "(X = p @ u \<and> u @ B = q) \<or> (X @ u = p \<and> B = u @ q)"
    by (auto simp: append_eq_append_conv2)
  then show ?thesis
  proof
    assume "X = p @ u \<and> u @ B = q"
    with assms(2,3) show ?thesis
      by (auto simp: created_append destroyed_append)
  next
    assume "X @ u = p \<and> B = u @ q"
    with assms(2-5) show ?thesis
      by (auto simp: created_append destroyed_append)
  qed
qed

lemma counts_loop_part:
  assumes "set u \<subseteq> set (loop_calls window shaderProgram VAO fs)"
  shows "created r u = 0" and "destroyed r u = 0"
proof -
  have "creates r c = 0 \<and> destroys r c = 0" if "c \<in> set u" for c
  proof -
    from that assms have "c \<in> set (loop_calls window shaderProgram VAO fs)" by blast
    from loop_calls_members [OF this] show ?thesis
      by (auto simp: in_loop_def creates_def destroys_def split: call.splits)
  qed
  then show "created r u = 0" and "destroyed r u = 0"
    by (simp_all add: created_def destroyed_def)
qed

lemma counts_setup:
  assumes "glfwInit_ok e" "created_window e = Some window" "gladLoadGLLoader_ok e"
  shows "created r (calls (snd (bootstrap e init_world)) @
                    phase_calls (upload_geometry e) @
                    phase_calls (build_program e)) = 1"
    and "destroyed r (calls (snd (bootstrap e init_world)) @
                    phase_calls (upload_geometry e) @
                    phase_calls (build_program e)) = 0"
  by (cases r; simp add: bootstrap_calls [OF assms] upload_calls build_calls report_def
      created_def destroyed_def creates_def destroys_def)+

lemma counts_shutdown:
  shows "created r (phase_calls (shutdown e)) = 0"
    and "destroyed r (phase_calls (shutdown e)) = 1"
    and "\<forall>c\<in>set (phase_calls (shutdown e)). \<not> in_loop c"
  by (cases r; simp add: shutdown_calls created_def destroyed_def creates_def destroys_def
      in_loop_def)+


lemma lifetimes_ok:
  assumes "glfwInit_ok e" "created_window e = Some window" "gladLoadGLLoader_ok e"
  shows "calls (fst (main e)) = p @ q \<Longrightarrow> destroyed r p \<le> created r p \<and> created r p \<le> 1"
    and "calls (fst (main e)) = p @ c # q \<Longrightarrow> in_loop c \<Longrightarrow>
           created r p = 1 \<and> destroyed r p = 0"
    and "snd (main e) = Some 0 \<Longrightarrow>
           created r (calls (fst (main e))) = 1 \<and> destroyed r (calls (fst (main e))) = 1"
proof -
  let ?A = "calls (snd (bootstrap e init_world)) @
            phase_calls (upload_geometry e) @
            phase_calls (build_program e)"
  let ?L = "loop_calls window (shaderProgram_name e) (gen_VAO e) (frames e)"
  let ?B = "if \<exists>f\<in>set (frames e). closes f then phase_calls (shutdown e) else []"
  have m: "calls (fst (main e)) = ?A @ ?L @ ?B"
    using main_ok(1) [OF assms] by simp
  have cA: "created r ?A = 1" and dA: "destroyed r ?A = 0"
    using counts_setup [OF assms] by simp_all
  have cL: "created r ?L = 0" and dL: "destroyed r ?L = 0"
    using counts_loop_part [of ?L window "shaderProgram_name e" "gen_VAO e" "frames e"]
    by simp_all
  have cB: "created r ?B = 0" and dB: "destroyed r ?B \<le> 1"
    by (simp_all add: counts_shutdown created_Nil destroyed_Nil)
  have cAL: "created r (?A @ ?L) = 1"
    using created_append [of r ?A ?L] by (simp only: cA cL)
  have dAL: "destroyed r (?A @ ?L) = 0"
    using destroyed_append [of r ?A ?L] by (simp only: dA dL)
  have nA: "\<forall>x\<in>set ?A. \<not> in_loop x"
    using no_in_loop_setup [OF assms] .
  have nB: "\<forall>x\<in>set ?B. \<not> in_loop x"
    using counts_shutdown(3) [of e] by simp
  show "destroyed r p \<le> created r p \<and> created r p \<le> 1" if "calls (fst (main e)) = p @ q"
  proof (rule prefix_counts)
    show "(?A @ ?L) @ ?B = p @ q"
      using that m by simp
    show "destroyed r (?A @ ?L) = 0"
      by (rule dAL)
    show "created r (?A @ ?L) \<le> 1"
      by (simp only: cAL)
    show "created r ?B = 0"
      by (rule cB)
    show "destroyed r ?B \<le> created r (?A @ ?L)"
      using dB by (simp only: cAL)
  qed
  show "created r p = 1 \<and> destroyed r p = 0"
    if s: "calls (fst (main e)) = p @ c # q" and l: "in_loop c"
  proof -
    have "?A @ ?L @ ?B = p @ c # q"
      using s m by simp
    from mid_split [OF this nA nB l] obtain u v where p: "p = ?A @ u" and L: "?L = u @ c # v"
      by blast
    have "set u \<subseteq> set ?L"
      by (subst L) auto
    from counts_loop_part [OF this] have u: "created r u = 0" "destroyed r u = 0"
      by simp_all
    have "created r (?A @ u) = 1"
      using created_append [of r ?A u] by (simp only: cA u)
    moreover have "destroyed r (?A @ u) = 0"
      using destroyed_append [of r ?A u] by (simp only: dA u)
    ultimately show ?thesis
      by (simp only: p)
  qed
  show "created r (calls (fst (main e))) = 1 \<and> destroyed r (calls (fst (main e))) = 1"
    if "snd (main e) = Some 0"
  proof -
    have "\<exists>f\<in>set (frames e). closes f"
      using that main_ok(2) [OF assms] by (simp split: if_splits)
    then have f: "calls (fst (main e)) = (?A @ ?L) @ phase_calls (shutdown e)"
      using m by simp
    have "created r ((?A @ ?L) @ phase_calls (shutdown e)) = 1"
      using created_append [of r "?A @ ?L" "phase_calls (shutdown e)"]
      by (simp only: cAL counts_shutdown)
    moreover have "destroyed r ((?A @ ?L) @ phase_calls (shutdown e)) = 1"
      using destroyed_append [of r "?A @ ?L" "phase_calls (shutdown e)"]
      by (simp only: dAL counts_shutdown)
    ultimately show ?thesis
      by (simp only: f)
  qed
qed

lemma lifetimes_early:
  assumes "\<not> (glfwInit_ok e \<and> created_window e \<noteq> None \<and> gladLoadGLLoader_ok e)"
  shows "snd (main e) = Some (- 1)"
    and "created r (calls (fst (main e))) = 0"
    and "destroyed r (calls (fst (main e))) = 0"
proof -
  consider "\<not> glfwInit_ok e" | "glfwInit_ok e" "created_window e = None"
    | w where "glfwInit_ok e" "created_window e = Some w" "\<not> gladLoadGLLoader_ok e"
    using assms by (cases "created_window e") auto
  then have "snd (main e) = Some (- 1) \<and> created r (calls (fst (main e))) = 0 \<and>
      destroyed r (calls (fst (main e))) = 0"
    by cases (simp_all add: main_early created_def destroyed_def creates_def destroys_def)
  then show "snd (main e) = Some (- 1)"
    and "created r (calls (fst (main e))) = 0"
    and "destroyed r (calls (fst (main e))) = 0"
    by simp_all
qed

text \<open>
  Claim C6, as amended. At most one vertex buffer, one vertex-array descriptor
  and one shader program exist at any time of a run. When the three
  initialisations succeed, exactly one of each exists at every call of the frame
  loop: all three are created before the first frame and none is destroyed
  before the loop is left; on the normal exit path (status 0) each is created
  once and destroyed exactly once, after the loop. On the early-failure exit
  paths (status -1) none of the three is created and none is destroyed.
\<close>

theorem gpu_object_lifetimes:
  "(\<forall>p q. calls (fst (main e)) = p @ q \<longrightarrow>
       destroyed r p \<le> created r p \<and> created r p \<le> 1) \<and>
   (glfwInit_ok e \<and> created_window e \<noteq> None \<and> gladLoadGLLoader_ok e \<longrightarrow>
      (\<forall>p c q. calls (fst (main e)) = p @ c # q \<and> in_loop c \<longrightarrow>
         created r p = 1 \<and> destroyed r p = 0) \<and>
      (snd (main e) = Some 0 \<longrightarrow>
         created r (calls (fst (main e))) = 1 \<and> destroyed r (calls (fst (main e))) = 1)) \<and>
   (\<not> (glfwInit_ok e \<and> created_window e \<noteq> None \<and> gladLoadGLLoader_ok e) \<longrightarrow>
      snd (main e) = Some (- 1) \<and>
      created r (calls (fst (main e))) = 0 \<and> destroyed r (calls (fst (main e))) = 0)"
proof (cases "glfwInit_ok e \<and> created_window e \<noteq> None \<and> gladLoadGLLoader_ok e")
  case True
  then obtain window where ok: "glfwInit_ok e" "created_window e = Some window"
    "gladLoadGLLoader_ok e"
    by (cases "created_window e") auto
  have 1: "destroyed r p \<le> created r p \<and> created r p \<le> 1"
    if "calls (fst (main e)) = p @ q" for p q
    using that by (rule lifetimes_ok(1) [OF ok])
  have 2: "created r p = 1 \<and> destroyed r p = 0"
    if "calls (fst (main e)) = p @ c # q" and "in_loop c" for p c q
    using that by (rule lifetimes_ok(2) [OF ok])
  have 3: "created r (calls (fst (main e))) = 1 \<and> destroyed r (calls (fst (main e))) = 1"
    if "snd (main e) = Some 0"
    using that by (rule lifetimes_ok(3) [OF ok])
  from True 1 2 3 show ?thesis
    by blast
next
  case False
  have e: "created r (calls (fst (main e))) = 0" "destroyed r (calls (fst (main e))) = 0"
    using lifetimes_early [OF False] by simp_all
  have "destroyed r p \<le> created r p \<and> created r p \<le> 1"
    if "calls (fst (main e)) = p @ q" for p q
  proof (rule prefix_counts)
    show "calls (fst (main e)) @ [] = p @ q"
      using that by simp
  qed (simp_all add: e created_Nil destroyed_Nil)
  with False e lifetimes_early(1) [OF False] show ?thesis
    by blast
qed

text \<open>
  The claim as the specification words it asks for the creation and the single
  destruction on every exit path. The run in which the windowing library fails
  to initialise exits with status -1 after one call, with no object created or
  destroyed.
\<close>

theorem gpu_object_lifetimes_counterexample:
  "snd (main env_init_fails) = Some (- 1) \<and>
   calls (fst (main env_init_fails)) = [GlfwInit] \<and>
   created VertexBuffer (calls (fst (main env_init_fails))) = 0 \<and>
   created VertexArray (calls (fst (main env_init_fails))) = 0 \<and>
   created ShaderProgram (calls (fst (main env_init_fails))) = 0 \<and>
   destroyed VertexBuffer (calls (fst (main env_init_fails))) = 0 \<and>
   destroyed VertexArray (calls (fst (main env_init_fails))) = 0 \<and>
   destroyed ShaderProgram (calls (fst (main env_init_fails))) = 0"
  by (simp add: main_def bootstrap_def Let_def init_world_def emit_def env_init_fails_def
      env_escape_def created_def destroyed_def creates_def destroys_def)

theorem gpu_object_lifetimes_witness:
  "glfwInit_ok env_escape \<and> created_window env_escape \<noteq> None \<and>
   gladLoadGLLoader_ok env_escape \<and> snd (main env_escape) = Some 0 \<and>
   created VertexBuffer (calls (fst (main env_escape))) = 1 \<and>
   destroyed VertexBuffer (calls (fst (main env_escape))) = 1 \<and>
   \<not> (glfwInit_ok env_no_loader \<and> created_window env_no_loader \<noteq> None \<and>
      gladLoadGLLoader_ok env_no_loader) \<and>
   snd (main env_no_loader) = Some (- 1) \<and>
   created VertexBuffer (calls (fst (main env_no_loader))) = 0 \<and>
   destroyed VertexBuffer (calls (fst (main env_no_loader))) = 0"
proof -
  have z: "snd (main env_escape) = Some 0"
    by (simp add: main_def bootstrap_def upload_geometry_def build_program_def shutdown_def
        frame_body_def glfwPollEvents_def glfwSetWindowShouldClose_def emit_def Let_def
        init_world_def env_escape_def frame_idle_def frame_escape_def)
  show ?thesis
    using z gpu_object_lifetimes [of env_escape VertexBuffer]
      gpu_object_lifetimes [of env_no_loader VertexBuffer]
    by (simp add: env_escape_def env_no_loader_def)
qed

subsection \<open>Geometry upload\<close>

lemma filter_setup_upload:
  assumes "glfwInit_ok e" "created_window e = Some window" "gladLoadGLLoader_ok e"
  shows "filter is_upload (calls (snd (bootstrap e init_world))) = []"
    and "filter is_attribute_setup (calls (snd (bootstrap e init_world))) = []"
  by (simp_all add: bootstrap_calls [OF assms] is_upload_def is_attribute_setup_def)

lemma filter_build_upload:
  shows "filter is_upload (phase_calls (build_program e)) = []"
    and "filter is_attribute_setup (phase_calls (build_program e)) = []"
  by (simp_all add: build_calls report_def is_upload_def is_attribute_setup_def)

lemma filter_shutdown_upload:
  shows "filter is_upload (phase_calls (shutdown e)) = []"
    and "filter is_attribute_setup (phase_calls (shutdown e)) = []"
  by (simp_all add: shutdown_calls is_upload_def is_attribute_setup_def)

lemma filter_loop_upload:
  shows "filter is_upload (loop_calls window shaderProgram VAO fs) = []"
    and "filter is_attribute_setup (loop_calls window shaderProgram VAO fs) = []"
  by (rule filter_loop_calls;
      auto simp: is_upload_def is_attribute_setup_def in_loop_def split: call.splits)+

text \<open>
  Claim C7. The geometry given to the GPU is one fixed array of 9 floats, the
  three vertices (-0.5, -0.5, 0), (0.5, -0.5, 0) and (0, 0.5, 0). It is uploaded
  once, before the loop, with the static-draw usage hint, into the buffer bound
  under the vertex-array descriptor; no later call writes buffer contents.
  Attribute slot 0 is described as 3 floats per vertex with a stride of 3 floats
  and offset 0, and is enabled.
\<close>

theorem geometry_upload:
  assumes "glfwInit_ok e" and "created_window e = Some window" and "gladLoadGLLoader_ok e"
  shows "filter is_upload (calls (fst (main e))) =
           [GlBufferData GL_ARRAY_BUFFER (9 * sizeof_float)
              [- 0.5, - 0.5, 0,
               0.5, - 0.5, 0,
               0, 0.5, 0]
              GL_STATIC_DRAW] \<and>
         filter is_attribute_setup (calls (fst (main e))) =
           [GlVertexAttribPointer 0 3 GL_FLOAT False (3 * sizeof_float) 0,
            GlEnableVertexAttribArray 0] \<and>
         (\<exists>before after. (\<forall>c\<in>set before. \<not> in_loop c) \<and>
            calls (fst (main e)) =
              before @
              [GlBindVertexArray (gen_VAO e),
               GlBindBuffer GL_ARRAY_BUFFER (gen_VBO e),
               GlBufferData GL_ARRAY_BUFFER (9 * sizeof_float)
                 [- 0.5, - 0.5, 0,
                  0.5, - 0.5, 0,
                  0, 0.5, 0]
                 GL_STATIC_DRAW,
               GlVertexAttribPointer 0 3 GL_FLOAT False (3 * sizeof_float) 0,
               GlEnableVertexAttribArray 0] @
              after)"
proof -
  let ?boot = "calls (snd (bootstrap e init_world))"
  let ?build = "phase_calls (build_program e)"
  let ?L = "loop_calls window (shaderProgram_name e) (gen_VAO e) (frames e)"
  let ?B = "if \<exists>f\<in>set (frames e). closes f then phase_calls (shutdown e) else []"
  let ?data = "GlBufferData GL_ARRAY_BUFFER (9 * sizeof_float)
                 [- 0.5, - 0.5, 0, 0.5, - 0.5, 0, 0, 0.5, 0] GL_STATIC_DRAW"
  let ?up = "[GlGenVertexArrays 1, GlGenBuffers 1,
              GlBindVertexArray (gen_VAO e), GlBindBuffer GL_ARRAY_BUFFER (gen_VBO e),
              ?data,
              GlVertexAttribPointer 0 3 GL_FLOAT False (3 * sizeof_float) 0,
              GlEnableVertexAttribArray 0]"
  have u: "phase_calls (upload_geometry e) = ?up"
    by (simp add: upload_calls sizeof_vertices_def vertices_def)
  have m: "calls (fst (main e)) = ?boot @ ?up @ ?build @ ?L @ ?B"
    using main_ok(1) [OF assms] by (simp only: u)
  have fB: "filter is_upload ?B = []" "filter is_attribute_setup ?B = []"
    by (simp_all add: filter_shutdown_upload)
  have 1: "filter is_upload (calls (fst (main e))) = [?data]"
    unfolding m filter_append
    by (simp only: filter_setup_upload [OF assms] filter_build_upload filter_loop_upload fB)
      (simp add: is_upload_def)
  have 2: "filter is_attribute_setup (calls (fst (main e))) =
           [GlVertexAttribPointer 0 3 GL_FLOAT False (3 * sizeof_float) 0,
            GlEnableVertexAttribArray 0]"
    unfolding m filter_append
    by (simp only: filter_setup_upload [OF assms] filter_build_upload filter_loop_upload fB)
      (simp add: is_attribute_setup_def)
  have n: "\<forall>c\<in>set (?boot @ [GlGenVertexArrays 1, GlGenBuffers 1]). \<not> in_loop c"
    by (simp add: bootstrap_calls [OF assms] in_loop_def)
  have "calls (fst (main e)) =
          (?boot @ [GlGenVertexArrays 1, GlGenBuffers 1]) @
          [GlBindVertexArray (gen_VAO e), GlBindBuffer GL_ARRAY_BUFFER (gen_VBO e),
           ?data,
           GlVertexAttribPointer 0 3 GL_FLOAT False (3 * sizeof_float) 0,
           GlEnableVertexAttribArray 0] @
          (?build @ ?L @ ?B)"
    unfolding m by simp
  with n have 3: "\<exists>before after. (\<forall>c\<in>set before. \<not> in_loop c) \<and>
            calls (fst (main e)) =
              before @
              [GlBindVertexArray (gen_VAO e),
               GlBindBuffer GL_ARRAY_BUFFER (gen_VBO e),
               ?data,
               GlVertexAttribPointer 0 3 GL_FLOAT False (3 * sizeof_float) 0,
               GlEnableVertexAttribArray 0] @
              after"
    by blast
  from 1 2 3 show ?thesis by blast
qed

theorem geometry_upload_witness:
  "glfwInit_ok env_escape \<and> created_window env_escape = Some 1 \<and>
   gladLoadGLLoader_ok env_escape \<and>
   filter is_upload (calls (fst (main env_escape))) =
     [GlBufferData GL_ARRAY_BUFFER 36 [- 0.5, - 0.5, 0, 0.5, - 0.5, 0, 0, 0.5, 0]
        GL_STATIC_DRAW] \<and>
   filter is_attribute_setup (calls (fst (main env_escape))) =
     [GlVertexAttribPointer 0 3 GL_FLOAT False 12 0, GlEnableVertexAttribArray 0]"
proof -
  have h1: "glfwInit_ok env_escape"
    by (simp add: env_escape_def)
  have h2: "created_window env_escape = Some 1"
    by (simp add: env_escape_def)
  have h3: "gladLoadGLLoader_ok env_escape"
    by (simp add: env_escape_def)
  show ?thesis
    using h1 h2 h3 geometry_upload [OF h1 h2 h3]
    by (simp add: sizeof_float_def)
qed

end
